theory Spec2Isabelle
  imports Main "HOL-Library.Word"
begin

section \<open>Values that cross the native boundary\<close>

text \<open>
  The binding \<^verbatim>\<open>jcms.cpp\<close> is called by a Java virtual machine and calls the colour
  management library lcms2. Its scalar types are fixed-width: \<^verbatim>\<open>jlong\<close> is 64 bits,
  \<^verbatim>\<open>jint\<close> and \<^verbatim>\<open>jsize\<close> are 32 bits read as two's complement (\<open>sint\<close>),
  \<^verbatim>\<open>cmsUInt32Number\<close> is 32 bits read unsigned (\<open>unat\<close>), \<^verbatim>\<open>jbyte\<close> is 8 bits.
  A \<^verbatim>\<open>jdouble\<close> is carried as its 64-bit pattern: the binding never computes with it.
  Native pointers (\<^verbatim>\<open>void*\<close>, \<^verbatim>\<open>cmsHPROFILE\<close>, \<^verbatim>\<open>cmsHTRANSFORM\<close>, \<^verbatim>\<open>cmsToneCurve*\<close>)
  are 64-bit words, so the casts between \<^verbatim>\<open>jlong\<close> and a pointer, between \<^verbatim>\<open>jint\<close>
  and \<^verbatim>\<open>cmsUInt32Number\<close>, and between \<^verbatim>\<open>jsize\<close> and \<^verbatim>\<open>cmsUInt32Number\<close> keep the bits.
\<close>

type_synonym jlong = "64 word"
type_synonym jint = "32 word"
type_synonym jsize = "32 word"
type_synonym jbyte = "8 word"
type_synonym jdouble = "64 word"
type_synonym jboolean = bool
type_synonym cmsUInt32Number = "32 word"
type_synonym cmsFloat64Number = "64 word"
type_synonym pointer = "64 word"

text \<open>A JNI reference (\<^verbatim>\<open>jobject\<close>, \<^verbatim>\<open>jstring\<close>, \<^verbatim>\<open>jbyteArray\<close>) is null or names an object.\<close>

datatype jref = Null | Ref nat

datatype jobj = ByteArray "jbyte list" | JString string

text \<open>
  A native view of a Java object, handed out by \<^verbatim>\<open>GetByteArrayElements\<close> or
  \<^verbatim>\<open>GetStringUTFChars\<close>: the object it belongs to and the bytes native code sees.
  A native address of such a view is its index in the table of views.
\<close>

datatype view = Elements nat "jbyte list" | UTFChars nat string

text \<open>
  What stops a run is a value of the model: a JNI function applied to a null or stale
  reference, a release of what is not outstanding, a wild pointer, a \<^verbatim>\<open>delete\<close> of
  what no new-expression made. A run that reaches such a point ends there.
\<close>

datatype fault =
    NullReference
  | BadReference jref
  | BadRelease nat
  | WildPointer nat
  | DeleteNotFromNew jref

datatype cmsInfoType = cmsInfoDescription | cmsInfoManufacturer | cmsInfoModel | cmsInfoCopyright

text \<open>Every call that leaves the binding is recorded, with its arguments and its answer.\<close>

datatype event =
    JGetStringUTFChars nat nat
  | JReleaseStringUTFChars nat nat
  | JGetByteArrayElements nat nat
  | JReleaseByteArrayElements nat nat jint
  | JGetArrayLength nat jsize
  | JNewByteArray jsize jref
  | JNewStringUTF string jref
  | COpenProfileFromFile string string pointer
  | COpenProfileFromMem "jbyte list" cmsUInt32Number pointer
  | CCloseProfile pointer bool
  | CGetProfileInfoASCII pointer cmsInfoType string string nat cmsUInt32Number cmsUInt32Number
  | CSaveProfileToMem pointer "nat option" cmsUInt32Number bool cmsUInt32Number
  | CCreateTransform pointer cmsUInt32Number pointer cmsUInt32Number cmsUInt32Number cmsUInt32Number pointer
  | CDeleteTransform pointer
  | CDoTransform pointer nat nat cmsUInt32Number
  | CCreate_sRGBProfile pointer
  | CBuildGamma pointer cmsFloat64Number pointer
  | CCreateGrayProfile pointer pointer pointer
  | CFreeToneCurve pointer

text \<open>
  The world outside the binding: the objects of the Java heap, the native views
  handed out so far (\<open>None\<close> once released), whether a Java exception is pending, the
  bytes the native stack holds where the locals of the next call are placed, the state
  of the library, and the calls made so far. The binding itself has no variable that
  outlives a call.
\<close>

record 'l world =
  heap :: "jobj list"
  views :: "view option list"
  pending :: bool
  stack :: string
  lib :: 'l
  trace :: "event list"

text \<open>A run that stops at a fault stops in some world.\<close>

type_synonym 'l stop = "fault \<times> 'l world"

text \<open>
  The library is not part of the repository: each of its functions is a parameter,
  a function of the library state. A function that stores through a pointer
  answers with the bytes it stores from the start of the destination.
\<close>

record 'l lcms2 =
  OpenProfileFromFile :: "string \<Rightarrow> string \<Rightarrow> 'l \<Rightarrow> pointer \<times> 'l"
  OpenProfileFromMem :: "jbyte list \<Rightarrow> cmsUInt32Number \<Rightarrow> 'l \<Rightarrow> pointer \<times> 'l"
  CloseProfile :: "pointer \<Rightarrow> 'l \<Rightarrow> bool \<times> 'l"
  GetProfileInfoASCII ::
    "pointer \<Rightarrow> cmsInfoType \<Rightarrow> string \<Rightarrow> string \<Rightarrow> cmsUInt32Number \<Rightarrow> 'l
      \<Rightarrow> (cmsUInt32Number \<times> string) \<times> 'l"
  SaveProfileToMem ::
    "pointer \<Rightarrow> bool \<Rightarrow> cmsUInt32Number \<Rightarrow> 'l \<Rightarrow> (bool \<times> jbyte list \<times> cmsUInt32Number) \<times> 'l"
  CreateTransform ::
    "pointer \<Rightarrow> cmsUInt32Number \<Rightarrow> pointer \<Rightarrow> cmsUInt32Number \<Rightarrow> cmsUInt32Number
      \<Rightarrow> cmsUInt32Number \<Rightarrow> 'l \<Rightarrow> pointer \<times> 'l"
  DeleteTransform :: "pointer \<Rightarrow> 'l \<Rightarrow> 'l"
  DoTransform :: "pointer \<Rightarrow> jbyte list \<Rightarrow> jbyte list \<Rightarrow> cmsUInt32Number \<Rightarrow> 'l \<Rightarrow> jbyte list \<times> 'l"
  Create_sRGBProfile :: "'l \<Rightarrow> pointer \<times> 'l"
  D50_xyY :: pointer
  BuildGamma :: "pointer \<Rightarrow> cmsFloat64Number \<Rightarrow> 'l \<Rightarrow> pointer \<times> 'l"
  CreateGrayProfile :: "pointer \<Rightarrow> pointer \<Rightarrow> 'l \<Rightarrow> pointer \<times> 'l"
  FreeToneCurve :: "pointer \<Rightarrow> 'l \<Rightarrow> 'l"

section \<open>Sequencing and native memory\<close>

definition andThen :: "'e + 'a \<Rightarrow> ('a \<Rightarrow> 'e + 'b) \<Rightarrow> 'e + 'b" where
  "andThen m f = (case m of Inl e \<Rightarrow> Inl e | Inr x \<Rightarrow> f x)"

text \<open>
  A store of \<open>bs\<close> at the start of a buffer overwrites its first cells and leaves the
  rest; the buffer keeps its extent.
\<close>

definition poke :: "'a list \<Rightarrow> 'a list \<Rightarrow> 'a list" where
  "poke buf bs = take (length buf) bs @ drop (length bs) buf"

definition elements_at :: "'l world \<Rightarrow> nat \<Rightarrow> 'l stop + jbyte list" where
  "elements_at w p =
     (if p < length (views w) then
        (case views w ! p of
           Some (Elements n bs) \<Rightarrow> Inr bs
         | Some (UTFChars n s) \<Rightarrow> Inl (WildPointer p, w)
         | None \<Rightarrow> Inl (WildPointer p, w))
      else Inl (WildPointer p, w))"

definition chars_at :: "'l world \<Rightarrow> nat \<Rightarrow> 'l stop + string" where
  "chars_at w p =
     (if p < length (views w) then
        (case views w ! p of
           Some (UTFChars n s) \<Rightarrow> Inr s
         | Some (Elements n bs) \<Rightarrow> Inl (WildPointer p, w)
         | None \<Rightarrow> Inl (WildPointer p, w))
      else Inl (WildPointer p, w))"

definition store_elements :: "nat \<Rightarrow> jbyte list \<Rightarrow> 'l world \<Rightarrow> 'l stop + 'l world" where
  "store_elements p bs w =
     (if p < length (views w) then
        (case views w ! p of
           Some (Elements n old) \<Rightarrow> Inr (w\<lparr>views := (views w)[p := Some (Elements n (poke old bs))]\<rparr>)
         | Some (UTFChars n s) \<Rightarrow> Inl (WildPointer p, w)
         | None \<Rightarrow> Inl (WildPointer p, w))
      else Inl (WildPointer p, w))"

text \<open>
  The native stack is listed from the address of the first local on, up to a NUL:
  the byte after the listed ones is NUL. A local array that is declared and not
  initialised holds what the stack holds there.
\<close>

definition local_array :: "nat \<Rightarrow> 'l world \<Rightarrow> string" where
  "local_array n w = take n (stack w) @ replicate (n - length (stack w)) (CHR 0x00)"

text \<open>Reading a C string: the bytes before the first NUL.\<close>

definition c_str :: "string \<Rightarrow> string" where
  "c_str cs = takeWhile (\<lambda>c. c \<noteq> CHR 0x00) cs"

text \<open>
  The C++ delete-expression. A null operand is a no-op; any other operand has to come
  from a new-expression. The binding has no new-expression and a JNI reference is a
  handle owned by the virtual machine, so a non-null operand leaves defined behaviour.
\<close>

definition delete_expr :: "jref \<Rightarrow> 'l world \<Rightarrow> 'l stop + 'l world" where
  "delete_expr p w = (case p of Null \<Rightarrow> Inr w | Ref n \<Rightarrow> Inl (DeleteNotFromNew (Ref n), w))"

section \<open>The JNI functions the binding calls\<close>

text \<open>
  After the JNI specification. The virtual machine hands out a private copy of an
  array or string and copies an array back on release with mode 0. Exhaustion of the
  Java heap is outside the model: an allocation of non-negative length succeeds.
\<close>

definition GetStringUTFChars :: "jref \<Rightarrow> 'l world \<Rightarrow> 'l stop + (nat \<times> 'l world)" where
  "GetStringUTFChars string w =
     (case string of
        Null \<Rightarrow> Inl (NullReference, w)
      | Ref n \<Rightarrow>
          if n < length (heap w) then
            (case heap w ! n of
               JString s \<Rightarrow>
                 Inr (length (views w),
                      w\<lparr>views := views w @ [Some (UTFChars n s)],
                        trace := trace w @ [JGetStringUTFChars n (length (views w))]\<rparr>)
             | ByteArray bs \<Rightarrow> Inl (BadReference string, w))
          else Inl (BadReference string, w))"

definition ReleaseStringUTFChars :: "jref \<Rightarrow> nat \<Rightarrow> 'l world \<Rightarrow> 'l stop + 'l world" where
  "ReleaseStringUTFChars string utf w =
     (case string of
        Null \<Rightarrow> Inl (NullReference, w)
      | Ref n \<Rightarrow>
          if utf < length (views w) then
            (case views w ! utf of
               Some (UTFChars m s) \<Rightarrow>
                 if m = n then
                   Inr (w\<lparr>views := (views w)[utf := None],
                          trace := trace w @ [JReleaseStringUTFChars n utf]\<rparr>)
                 else Inl (BadRelease utf, w)
             | Some (Elements m bs) \<Rightarrow> Inl (BadRelease utf, w)
             | None \<Rightarrow> Inl (BadRelease utf, w))
          else Inl (BadRelease utf, w))"

definition GetByteArrayElements :: "jref \<Rightarrow> 'l world \<Rightarrow> 'l stop + (nat \<times> 'l world)" where
  "GetByteArrayElements array w =
     (case array of
        Null \<Rightarrow> Inl (NullReference, w)
      | Ref n \<Rightarrow>
          if n < length (heap w) then
            (case heap w ! n of
               ByteArray bs \<Rightarrow>
                 Inr (length (views w),
                      w\<lparr>views := views w @ [Some (Elements n bs)],
                        trace := trace w @ [JGetByteArrayElements n (length (views w))]\<rparr>)
             | JString s \<Rightarrow> Inl (BadReference array, w))
          else Inl (BadReference array, w))"

text \<open>Mode 0 copies back and frees, \<^verbatim>\<open>JNI_COMMIT\<close> (1) copies back, \<^verbatim>\<open>JNI_ABORT\<close> (2) frees.\<close>

definition ReleaseByteArrayElements :: "jref \<Rightarrow> nat \<Rightarrow> jint \<Rightarrow> 'l world \<Rightarrow> 'l stop + 'l world" where
  "ReleaseByteArrayElements array elems mode w =
     (case array of
        Null \<Rightarrow> Inl (NullReference, w)
      | Ref n \<Rightarrow>
          if elems < length (views w) then
            (case views w ! elems of
               Some (Elements m bs) \<Rightarrow>
                 if m = n \<and> n < length (heap w) then
                   Inr (w\<lparr>heap := (if mode = 2 then heap w else (heap w)[n := ByteArray bs]),
                          views := (if mode = 1 then views w else (views w)[elems := None]),
                          trace := trace w @ [JReleaseByteArrayElements n elems mode]\<rparr>)
                 else Inl (BadRelease elems, w)
             | Some (UTFChars m s) \<Rightarrow> Inl (BadRelease elems, w)
             | None \<Rightarrow> Inl (BadRelease elems, w))
          else Inl (BadRelease elems, w))"

definition GetArrayLength :: "jref \<Rightarrow> 'l world \<Rightarrow> 'l stop + (jsize \<times> 'l world)" where
  "GetArrayLength array w =
     (case array of
        Null \<Rightarrow> Inl (NullReference, w)
      | Ref n \<Rightarrow>
          if n < length (heap w) then
            (case heap w ! n of
               ByteArray bs \<Rightarrow>
                 Inr (of_nat (length bs),
                      w\<lparr>trace := trace w @ [JGetArrayLength n (of_nat (length bs))]\<rparr>)
             | JString s \<Rightarrow> Inl (BadReference array, w))
          else Inl (BadReference array, w))"

text \<open>A negative length raises \<^verbatim>\<open>NegativeArraySizeException\<close> and answers null.\<close>

definition NewByteArray :: "jsize \<Rightarrow> 'l world \<Rightarrow> jref \<times> 'l world" where
  "NewByteArray len w =
     (if sint len < 0 then
        (Null, w\<lparr>pending := True, trace := trace w @ [JNewByteArray len Null]\<rparr>)
      else
        (Ref (length (heap w)),
         w\<lparr>heap := heap w @ [ByteArray (replicate (nat (sint len)) 0)],
           trace := trace w @ [JNewByteArray len (Ref (length (heap w)))]\<rparr>))"

text \<open>
  \<^verbatim>\<open>NewStringUTF\<close> is given the address of a local array: it reads the array as a C
  string, and on into the stack after the array when the array holds no NUL.
\<close>

definition NewStringUTF :: "string \<Rightarrow> 'l world \<Rightarrow> jref \<times> 'l world" where
  "NewStringUTF bytes w =
     (case c_str (bytes @ drop (length bytes) (stack w)) of
        s \<Rightarrow>
          (Ref (length (heap w)),
           w\<lparr>heap := heap w @ [JString s],
             trace := trace w @ [JNewStringUTF s (Ref (length (heap w)))]\<rparr>))"

section \<open>Calls into the library\<close>

text \<open>
  Each call reads what its pointer arguments point to, asks the library, stores what
  the library stores, and records the call.
\<close>

definition cmsOpenProfileFromFile :: "'l lcms2 \<Rightarrow> nat \<Rightarrow> nat \<Rightarrow> 'l world \<Rightarrow> 'l stop + (pointer \<times> 'l world)" where
  "cmsOpenProfileFromFile L ICCProfile sAccess w =
     andThen (chars_at w ICCProfile) (\<lambda>fn.
     andThen (chars_at w sAccess) (\<lambda>md.
       (case OpenProfileFromFile L fn md (lib w) of
          (h, l) \<Rightarrow> Inr (h, w\<lparr>lib := l, trace := trace w @ [COpenProfileFromFile fn md h]\<rparr>))))"

definition cmsOpenProfileFromMem ::
    "'l lcms2 \<Rightarrow> nat \<Rightarrow> cmsUInt32Number \<Rightarrow> 'l world \<Rightarrow> 'l stop + (pointer \<times> 'l world)" where
  "cmsOpenProfileFromMem L MemPtr dwSize w =
     andThen (elements_at w MemPtr) (\<lambda>bs.
       (case OpenProfileFromMem L bs dwSize (lib w) of
          (h, l) \<Rightarrow> Inr (h, w\<lparr>lib := l, trace := trace w @ [COpenProfileFromMem bs dwSize h]\<rparr>)))"

definition cmsCloseProfile :: "'l lcms2 \<Rightarrow> pointer \<Rightarrow> 'l world \<Rightarrow> bool \<times> 'l world" where
  "cmsCloseProfile L hProfile w =
     (case CloseProfile L hProfile (lib w) of
        (ok, l) \<Rightarrow> (ok, w\<lparr>lib := l, trace := trace w @ [CCloseProfile hProfile ok]\<rparr>))"

definition cmsGetProfileInfoASCII ::
    "'l lcms2 \<Rightarrow> pointer \<Rightarrow> cmsInfoType \<Rightarrow> string \<Rightarrow> string \<Rightarrow> string \<Rightarrow> cmsUInt32Number
      \<Rightarrow> 'l world \<Rightarrow> cmsUInt32Number \<times> string \<times> 'l world" where
  "cmsGetProfileInfoASCII L hProfile Info LanguageCode CountryCode Buffer BufferSize w =
     (case GetProfileInfoASCII L hProfile Info LanguageCode CountryCode BufferSize (lib w) of
        ((n, written), l) \<Rightarrow>
          (n, poke Buffer written,
           w\<lparr>lib := l,
             trace := trace w @
               [CGetProfileInfoASCII hProfile Info LanguageCode CountryCode (length Buffer) BufferSize n]\<rparr>))"

definition cmsSaveProfileToMem ::
    "'l lcms2 \<Rightarrow> pointer \<Rightarrow> nat option \<Rightarrow> cmsUInt32Number \<Rightarrow> 'l world
      \<Rightarrow> 'l stop + ((bool \<times> cmsUInt32Number) \<times> 'l world)" where
  "cmsSaveProfileToMem L hProfile MemPtr BytesNeeded w =
     (case SaveProfileToMem L hProfile (MemPtr \<noteq> None) BytesNeeded (lib w) of
        ((ok, written, n), l) \<Rightarrow>
          (case MemPtr of
             None \<Rightarrow>
               Inr ((ok, n),
                    w\<lparr>lib := l, trace := trace w @ [CSaveProfileToMem hProfile MemPtr BytesNeeded ok n]\<rparr>)
           | Some p \<Rightarrow>
               andThen (store_elements p written w) (\<lambda>w.
                 Inr ((ok, n),
                      w\<lparr>lib := l,
                        trace := trace w @ [CSaveProfileToMem hProfile MemPtr BytesNeeded ok n]\<rparr>))))"

definition cmsCreateTransform ::
    "'l lcms2 \<Rightarrow> pointer \<Rightarrow> cmsUInt32Number \<Rightarrow> pointer \<Rightarrow> cmsUInt32Number \<Rightarrow> cmsUInt32Number
      \<Rightarrow> cmsUInt32Number \<Rightarrow> 'l world \<Rightarrow> pointer \<times> 'l world" where
  "cmsCreateTransform L Input InputFormat Output OutputFormat Intent dwFlags w =
     (case CreateTransform L Input InputFormat Output OutputFormat Intent dwFlags (lib w) of
        (h, l) \<Rightarrow>
          (h, w\<lparr>lib := l,
                trace := trace w @
                  [CCreateTransform Input InputFormat Output OutputFormat Intent dwFlags h]\<rparr>))"


definition cmsDoTransform ::
    "'l lcms2 \<Rightarrow> pointer \<Rightarrow> nat \<Rightarrow> nat \<Rightarrow> cmsUInt32Number \<Rightarrow> 'l world \<Rightarrow> 'l stop + 'l world" where
  "cmsDoTransform L Transform InputBuffer OutputBuffer Size w =
     andThen (elements_at w InputBuffer) (\<lambda>inp.
     andThen (elements_at w OutputBuffer) (\<lambda>out.
       (case DoTransform L Transform inp out Size (lib w) of
          (written, l) \<Rightarrow>
            andThen (store_elements OutputBuffer written w) (\<lambda>w.
              Inr (w\<lparr>lib := l,
                     trace := trace w @ [CDoTransform Transform InputBuffer OutputBuffer Size]\<rparr>)))))"


definition cmsD50_xyY :: "'l lcms2 \<Rightarrow> pointer" where
  "cmsD50_xyY L = D50_xyY L"

definition cmsBuildGamma :: "'l lcms2 \<Rightarrow> pointer \<Rightarrow> cmsFloat64Number \<Rightarrow> 'l world \<Rightarrow> pointer \<times> 'l world" where
  "cmsBuildGamma L ContextID Gamma w =
     (case BuildGamma L ContextID Gamma (lib w) of
        (c, l) \<Rightarrow> (c, w\<lparr>lib := l, trace := trace w @ [CBuildGamma ContextID Gamma c]\<rparr>))"

definition cmsCreateGrayProfile :: "'l lcms2 \<Rightarrow> pointer \<Rightarrow> pointer \<Rightarrow> 'l world \<Rightarrow> pointer \<times> 'l world" where
  "cmsCreateGrayProfile L WhitePoint TransferFunction w =
     (case CreateGrayProfile L WhitePoint TransferFunction (lib w) of
        (h, l) \<Rightarrow>
          (h, w\<lparr>lib := l, trace := trace w @ [CCreateGrayProfile WhitePoint TransferFunction h]\<rparr>))"

definition cmsFreeToneCurve :: "'l lcms2 \<Rightarrow> pointer \<Rightarrow> 'l world \<Rightarrow> 'l world" where
  "cmsFreeToneCurve L Curve w =
     w\<lparr>lib := FreeToneCurve L Curve (lib w), trace := trace w @ [CFreeToneCurve Curve]\<rparr>"

section \<open>The binding\<close>

text \<open>
  The ten native methods of \<^verbatim>\<open>jcms.cpp\<close>, statement by statement. The \<^verbatim>\<open>env\<close>
  argument is the world; the \<^verbatim>\<open>cls\<close> argument is never used and is left out.
\<close>

definition Java_com_gmail_etordera_jcms_JCMS_cmsOpenProfileFromFile ::
    "'l lcms2 \<Rightarrow> jref \<Rightarrow> jref \<Rightarrow> 'l world \<Rightarrow> 'l stop + (jlong \<times> 'l world)" where
  "Java_com_gmail_etordera_jcms_JCMS_cmsOpenProfileFromFile L filename mode w =
     andThen (GetStringUTFChars filename w) (\<lambda>(strFilename, w).
     andThen (GetStringUTFChars mode w) (\<lambda>(strMode, w).
     andThen (cmsOpenProfileFromFile L strFilename strMode w) (\<lambda>(hProfile, w).
     andThen (ReleaseStringUTFChars filename strFilename w) (\<lambda>w.
     andThen (ReleaseStringUTFChars mode strMode w) (\<lambda>w.
       Inr (hProfile, w))))))"

definition Java_com_gmail_etordera_jcms_JCMS_cmsOpenProfileFromMem ::
    "'l lcms2 \<Rightarrow> jref \<Rightarrow> 'l world \<Rightarrow> 'l stop + (jlong \<times> 'l world)" where
  "Java_com_gmail_etordera_jcms_JCMS_cmsOpenProfileFromMem L dataBuffer w =
     andThen (GetByteArrayElements dataBuffer w) (\<lambda>(data, w).
     andThen (GetArrayLength dataBuffer w) (\<lambda>(size, w).
     andThen (cmsOpenProfileFromMem L data size w) (\<lambda>(hProfile, w).
     andThen (ReleaseByteArrayElements dataBuffer data 0 w) (\<lambda>w.
       Inr (hProfile, w)))))"

definition Java_com_gmail_etordera_jcms_JCMS_cmsCloseProfile ::
    "'l lcms2 \<Rightarrow> jlong \<Rightarrow> 'l world \<Rightarrow> jboolean \<times> 'l world" where
  "Java_com_gmail_etordera_jcms_JCMS_cmsCloseProfile L hprofile w =
     (case cmsCloseProfile L hprofile w of (ok, w) \<Rightarrow> (True, w))"

definition Java_com_gmail_etordera_jcms_JCMS_cmsGetProfileInfoASCII ::
    "'l lcms2 \<Rightarrow> jlong \<Rightarrow> 'l world \<Rightarrow> jref \<times> 'l world" where
  "Java_com_gmail_etordera_jcms_JCMS_cmsGetProfileInfoASCII L hprofile w =
     (case local_array 512 w of
        textBuffer \<Rightarrow>
          (case cmsGetProfileInfoASCII L hprofile cmsInfoDescription ''en'' ''EN'' textBuffer 512 w of
             (n, textBuffer, w) \<Rightarrow> NewStringUTF textBuffer w))"

definition Java_com_gmail_etordera_jcms_JCMS_cmsSaveProfileToMem ::
    "'l lcms2 \<Rightarrow> jlong \<Rightarrow> 'l world \<Rightarrow> 'l stop + (jref \<times> 'l world)" where
  "Java_com_gmail_etordera_jcms_JCMS_cmsSaveProfileToMem L hprofile w =
     (let size = 0 in
      andThen (cmsSaveProfileToMem L hprofile None size w) (\<lambda>((ok, size), w).
        if \<not> ok then Inr (NewByteArray 0 w)
        else
          (case NewByteArray size w of
             (dataBuffer, w) \<Rightarrow>
               andThen (GetByteArrayElements dataBuffer w) (\<lambda>(data, w).
               andThen (cmsSaveProfileToMem L hprofile (Some data) size w) (\<lambda>((ok, size), w).
                 if \<not> ok then
                   andThen (delete_expr dataBuffer w) (\<lambda>w.
                   andThen (ReleaseByteArrayElements dataBuffer data 0 w) (\<lambda>w.
                     Inr (NewByteArray 0 w)))
                 else
                   andThen (ReleaseByteArrayElements dataBuffer data 0 w) (\<lambda>w.
                     Inr (dataBuffer, w)))))))"

definition Java_com_gmail_etordera_jcms_JCMS_cmsCreateTransform ::
    "'l lcms2 \<Rightarrow> jlong \<Rightarrow> jint \<Rightarrow> jlong \<Rightarrow> jint \<Rightarrow> jint \<Rightarrow> jint \<Rightarrow> 'l world \<Rightarrow> jlong \<times> 'l world" where
  "Java_com_gmail_etordera_jcms_JCMS_cmsCreateTransform L hInputProfile inputType hOutputProfile outputType
       intent flags w =
     (case cmsCreateTransform L hInputProfile inputType hOutputProfile outputType intent flags w of
        (hTransform, w) \<Rightarrow> (hTransform, w))"


definition Java_com_gmail_etordera_jcms_JCMS_cmsDoTransform ::
    "'l lcms2 \<Rightarrow> jlong \<Rightarrow> jref \<Rightarrow> jref \<Rightarrow> jint \<Rightarrow> 'l world \<Rightarrow> 'l stop + 'l world" where
  "Java_com_gmail_etordera_jcms_JCMS_cmsDoTransform L hTransform inputBuffer outputBuffer size' w =
     andThen (GetByteArrayElements inputBuffer w) (\<lambda>(input, w).
     andThen (GetByteArrayElements outputBuffer w) (\<lambda>(output, w).
     andThen (cmsDoTransform L hTransform input output size' w) (\<lambda>w.
     andThen (ReleaseByteArrayElements inputBuffer input 0 w) (\<lambda>w.
     andThen (ReleaseByteArrayElements outputBuffer output 0 w) (\<lambda>w.
       Inr w)))))"


definition Java_com_gmail_etordera_jcms_JCMS_cmsCreateGrayProfile ::
    "'l lcms2 \<Rightarrow> jdouble \<Rightarrow> 'l world \<Rightarrow> jlong \<times> 'l world" where
  "Java_com_gmail_etordera_jcms_JCMS_cmsCreateGrayProfile L gamma w =
     (case cmsBuildGamma L 0 gamma w of
        (GammaCurve, w) \<Rightarrow>
          (case cmsCreateGrayProfile L (cmsD50_xyY L) GammaCurve w of
             (hProfile, w) \<Rightarrow>
               (case cmsFreeToneCurve L GammaCurve w of
                  w \<Rightarrow> (hProfile, w))))"

section \<open>Observations\<close>

text \<open>How a run ended, without the world it ended in.\<close>

definition outcome :: "(fault \<times> 'w) + ('a \<times> 'w) \<Rightarrow> fault + 'a" where
  "outcome r = (case r of Inl (e, w) \<Rightarrow> Inl e | Inr (x, w) \<Rightarrow> Inr x)"

text \<open>
  What a caller passes: a reference to a live Java string, or to a live Java byte
  array. The length of a Java array is an \<^verbatim>\<open>int\<close>, so it is below \<open>2 ^ 31\<close>.
\<close>

definition string_at :: "'l world \<Rightarrow> jref \<Rightarrow> string \<Rightarrow> bool" where
  "string_at w r s =
     (case r of Null \<Rightarrow> False | Ref n \<Rightarrow> n < length (heap w) \<and> heap w ! n = JString s)"

definition bytes_at :: "'l world \<Rightarrow> jref \<Rightarrow> jbyte list \<Rightarrow> bool" where
  "bytes_at w r bs =
     (case r of
        Null \<Rightarrow> False
      | Ref n \<Rightarrow> n < length (heap w) \<and> heap w ! n = ByteArray bs \<and> length bs < 2 ^ 31)"

text \<open>
  What a caller can see of a returned reference is the object behind it; what it can
  see of a transform is the output array afterwards.
\<close>

definition returned :: "'l stop + (jref \<times> 'l world) \<Rightarrow> jobj option" where
  "returned r =
     (case r of
        Inl s \<Rightarrow> None
      | Inr (Null, w) \<Rightarrow> None
      | Inr (Ref n, w) \<Rightarrow> (if n < length (heap w) then Some (heap w ! n) else None))"


text \<open>The native views that are handed out and not yet released.\<close>

definition outstanding :: "'l world \<Rightarrow> nat list" where
  "outstanding w = filter (\<lambda>p. views w ! p \<noteq> None) [0 ..< length (views w)]"

section \<open>A library and a world to run the binding in\<close>

text \<open>
  A small library whose state is the list of live tone curves. Handle \<open>0x1000\<close> is a
  profile with the description \<^verbatim>\<open>gray\<close> that serialises to four bytes; \<open>0x3000\<close> is a
  profile whose size query succeeds and whose serialisation then fails; \<open>0x4000\<close> is a
  profile of \<open>2 ^ 31\<close> bytes; neither of these two has a description. Any other handle
  is unknown to the library.
\<close>

definition demo :: "pointer list lcms2" where
  "demo =
     \<lparr>OpenProfileFromFile = (\<lambda>fn md l. (if fn = ''gray.icc'' \<and> md = ''r'' then 0x1000 else 0, l)),
      OpenProfileFromMem = (\<lambda>bs n l. (if unat n = length bs \<and> bs \<noteq> [] then 0x2000 else 0, l)),
      CloseProfile = (\<lambda>h l. (h = 0x1000, l)),
      GetProfileInfoASCII =
        (\<lambda>h i lang cc n l. if h = 0x1000 then ((5, ''gray'' @ [CHR 0x00]), l) else ((0, []), l)),
      SaveProfileToMem =
        (\<lambda>h dst n l.
           if h = 0x1000 then (if dst then ((True, [1, 2, 3, 4], 4), l) else ((True, [], 4), l))
           else if h = 0x3000 then (if dst then ((False, [1, 2], 4), l) else ((True, [], 4), l))
           else if h = 0x4000 then ((True, [], 0x80000000), l)
           else ((False, [], 0), l)),
      CreateTransform =
        (\<lambda>hi it ho ot intent fl l. (if hi = 0x1000 \<and> ho = 0x1000 \<and> it = ot then 0x7000 else 0, l)),
      DeleteTransform = (\<lambda>h l. l),
      DoTransform = (\<lambda>h inp out n l. (take (unat n) inp, l)),
      Create_sRGBProfile = (\<lambda>l. (0x6000, l)),
      D50_xyY = 0xD50,
      BuildGamma = (\<lambda>ctx g l. (0x5000 + of_nat (length l), l @ [0x5000 + of_nat (length l)])),
      CreateGrayProfile = (\<lambda>wp c l. (if wp = 0xD50 \<and> c \<in> set l then 0x1000 else 0, l)),
      FreeToneCurve = (\<lambda>c l. removeAll c l)\<rparr>"

text \<open>A world whose stack holds 518 bytes that are not NUL.\<close>

definition world0 :: "pointer list world" where
  "world0 =
     \<lparr>heap = [JString ''gray.icc'', JString ''r'', ByteArray [1, 2, 3], ByteArray [0, 0, 0]],
      views = [], pending = False, stack = replicate 518 (CHR ''A''), lib = [], trace = []\<rparr>"


section \<open>Facts about native memory and fixed-width sizes\<close>

lemmas jni_defs = GetStringUTFChars_def ReleaseStringUTFChars_def GetByteArrayElements_def
  ReleaseByteArrayElements_def GetArrayLength_def NewByteArray_def NewStringUTF_def
  elements_at_def chars_at_def store_elements_def delete_expr_def andThen_def

lemma replicate_numeral: "replicate (numeral k) x = x # replicate (pred_numeral k) x"
  by (simp add: numeral_eq_Suc)

lemma poke_length: "length (poke buf bs) = length buf"
  by (simp add: poke_def)

lemma local_array_length: "length (local_array n w) = n"
  by (simp add: local_array_def)

lemma c_str_terminated: "CHR 0x00 \<in> set xs \<Longrightarrow> c_str (xs @ rest) = c_str xs"
  by (simp add: c_str_def takeWhile_append1)

lemma c_str_buffer:
  assumes "CHR 0x00 \<in> set (take 512 written)"
  shows "c_str (poke (local_array 512 w) written @ rest) = c_str (take 512 written)"
proof -
  have "poke (local_array 512 w) written = take 512 written @ drop (length written) (local_array 512 w)"
    by (simp add: poke_def local_array_length)
  with assms show ?thesis
    by (simp add: c_str_terminated)
qed

lemma takeWhile_shorter: "x \<in> set xs \<Longrightarrow> length (takeWhile (\<lambda>c. c \<noteq> x) xs) < length xs"
  by (induction xs) auto

lemma sint_nonneg_unat:
  assumes "0 \<le> sint (n :: 32 word)"
  shows "nat (sint n) = unat n"
proof -
  have "sint n < 2 ^ 32"
    using sint_lt [of n] by simp
  with assms have "take_bit 32 (sint n) = sint n"
    by (simp add: take_bit_int_eq_self)
  then have "uint n = sint n"
    using uint_sint [of n] by simp
  then show ?thesis
    by (simp add: unat_eq_nat_uint del: nat_uint_eq)
qed

lemma unat_jsize: "n < 2 ^ 31 \<Longrightarrow> unat (of_nat n :: 32 word) = n"
  by (simp add: unat_of_nat)

section \<open>Saving a profile to memory\<close>

text \<open>
  Claim C1. When the size query, the first call of the library's save function (null
  destination, size 0), reports failure, the save-to-memory operation returns a
  reference to a newly created byte array of length zero, never the null reference.
  It makes no other call, acquires no view and raises nothing.
\<close>

theorem SaveProfileToMem_size_query_failure_returns_empty_array:
  assumes "SaveProfileToMem L hprofile False 0 (lib w) = ((False, written, n), l)"
  shows "Java_com_gmail_etordera_jcms_JCMS_cmsSaveProfileToMem L hprofile w =
           Inr (Ref (length (heap w)),
                w\<lparr>heap := heap w @ [ByteArray []], lib := l,
                  trace := trace w @
                    [CSaveProfileToMem hprofile None 0 False n, JNewByteArray 0 (Ref (length (heap w)))]\<rparr>)"
  using assms
  by (simp add: Java_com_gmail_etordera_jcms_JCMS_cmsSaveProfileToMem_def
      cmsSaveProfileToMem_def NewByteArray_def andThen_def)

theorem SaveProfileToMem_size_query_failure_witness:
  "SaveProfileToMem demo 0 False 0 (lib world0) = ((False, [], 0), [])
   \<and> Java_com_gmail_etordera_jcms_JCMS_cmsSaveProfileToMem demo 0 world0 =
       Inr (Ref 4,
            world0\<lparr>heap := heap world0 @ [ByteArray []], lib := [],
                   trace := trace world0 @ [CSaveProfileToMem 0 None 0 False 0, JNewByteArray 0 (Ref 4)]\<rparr>)"
proof -
  have q: "SaveProfileToMem demo 0 False 0 (lib world0) = ((False, [], 0), [])"
    by (simp add: demo_def world0_def)
  have "length (heap world0) = 4"
    by (simp add: world0_def)
  with q SaveProfileToMem_size_query_failure_returns_empty_array [OF q] show ?thesis
    by simp
qed

text \<open>
  Claim C4, as the code has it. When the size query succeeds with a size that is a
  Java array length (non-negative as a \<^verbatim>\<open>jsize\<close>, that is below \<open>2 ^ 31\<close>), the operation
  follows the two-phase protocol: the query with a null destination and size 0, a new
  byte array of exactly the reported size, its elements, and a second call of the
  library's save function with these elements as destination and the reported size.
  When the second call succeeds the elements are released once and the array, now
  holding what the library stored, is returned.
\<close>

theorem SaveProfileToMem_two_phase_protocol:
  assumes "SaveProfileToMem L hprofile False 0 (lib w) = ((True, written1, n), l1)"
    and "0 \<le> sint n"
    and "SaveProfileToMem L hprofile True n l1 = ((ok, written2, n2), l2)"
  shows "(case Java_com_gmail_etordera_jcms_JCMS_cmsSaveProfileToMem L hprofile w of
            Inr (r, w') \<Rightarrow>
              ok \<and> r = Ref (length (heap w))
              \<and> heap w' = heap w @ [ByteArray (poke (replicate (unat n) 0) written2)]
              \<and> views w' = views w @ [None]
              \<and> trace w' = trace w @
                  [CSaveProfileToMem hprofile None 0 True n,
                   JNewByteArray n (Ref (length (heap w))),
                   JGetByteArrayElements (length (heap w)) (length (views w)),
                   CSaveProfileToMem hprofile (Some (length (views w))) n True n2,
                   JReleaseByteArrayElements (length (heap w)) (length (views w)) 0]
          | Inl (e, w') \<Rightarrow>
              \<not> ok
              \<and> trace w' = trace w @
                  [CSaveProfileToMem hprofile None 0 True n,
                   JNewByteArray n (Ref (length (heap w))),
                   JGetByteArrayElements (length (heap w)) (length (views w)),
                   CSaveProfileToMem hprofile (Some (length (views w))) n False n2])"
  using assms
  by (cases ok)
    (simp_all add: Java_com_gmail_etordera_jcms_JCMS_cmsSaveProfileToMem_def
      cmsSaveProfileToMem_def jni_defs nth_append sint_nonneg_unat)

theorem SaveProfileToMem_two_phase_protocol_witness:
  "SaveProfileToMem demo 0x1000 False 0 (lib world0) = ((True, [], 4), [])
   \<and> 0 \<le> sint (4 :: cmsUInt32Number)
   \<and> SaveProfileToMem demo 0x1000 True 4 [] = ((True, [1, 2, 3, 4], 4), [])
   \<and> (case Java_com_gmail_etordera_jcms_JCMS_cmsSaveProfileToMem demo 0x1000 world0 of
         Inr (r, w') \<Rightarrow> r = Ref 4 \<and> heap w' = heap world0 @ [ByteArray [1, 2, 3, 4]]
       | Inl (e, w') \<Rightarrow> False)"
proof -
  have q: "SaveProfileToMem demo 0x1000 False 0 (lib world0) = ((True, [], 4), [])"
    by (simp add: demo_def world0_def)
  have s: "0 \<le> sint (4 :: cmsUInt32Number)"
    by simp
  have f: "SaveProfileToMem demo 0x1000 True 4 [] = ((True, [1, 2, 3, 4], 4), [])"
    by (simp add: demo_def)
  have "length (heap world0) = 4"
    by (simp add: world0_def)
  with q s f SaveProfileToMem_two_phase_protocol [OF q s f] show ?thesis
    by (simp add: poke_def replicate_numeral split: sum.splits prod.splits)
qed

text \<open>
  Claim C4 as stated fails: a size query that succeeds with \<open>2 ^ 31\<close> is cast to a
  negative \<^verbatim>\<open>jsize\<close>, no array is allocated, and the run stops on the null reference.
\<close>

theorem SaveProfileToMem_size_beyond_jsize_counterexample:
  "fst (fst (SaveProfileToMem demo 0x4000 False 0 (lib world0)))
   \<and> outcome (Java_com_gmail_etordera_jcms_JCMS_cmsSaveProfileToMem demo 0x4000 world0) =
       Inl NullReference"
  by (simp add: Java_com_gmail_etordera_jcms_JCMS_cmsSaveProfileToMem_def
      cmsSaveProfileToMem_def jni_defs demo_def world0_def outcome_def)

text \<open>
  Claim C10. When the second call fails, the source applies \<^verbatim>\<open>delete\<close> to the JNI
  reference of the array it allocated, before it releases the elements through that
  same reference and before it creates the empty array it means to return. The
  operand of that \<^verbatim>\<open>delete\<close> does not come from a new-expression: the run leaves
  defined behaviour there and returns nothing.
\<close>

theorem SaveProfileToMem_fill_failure_reaches_delete:
  assumes "SaveProfileToMem L hprofile False 0 (lib w) = ((True, written1, n), l1)"
    and "0 \<le> sint n"
    and "SaveProfileToMem L hprofile True n l1 = ((False, written2, n2), l2)"
  shows "outcome (Java_com_gmail_etordera_jcms_JCMS_cmsSaveProfileToMem L hprofile w) =
           Inl (DeleteNotFromNew (Ref (length (heap w))))"
  using assms
  by (simp add: Java_com_gmail_etordera_jcms_JCMS_cmsSaveProfileToMem_def
      cmsSaveProfileToMem_def jni_defs nth_append outcome_def)

theorem SaveProfileToMem_fill_failure_witness:
  "SaveProfileToMem demo 0x3000 False 0 (lib world0) = ((True, [], 4), [])
   \<and> 0 \<le> sint (4 :: cmsUInt32Number)
   \<and> SaveProfileToMem demo 0x3000 True 4 [] = ((False, [1, 2], 4), [])
   \<and> outcome (Java_com_gmail_etordera_jcms_JCMS_cmsSaveProfileToMem demo 0x3000 world0) =
       Inl (DeleteNotFromNew (Ref 4))"
proof -
  have q: "SaveProfileToMem demo 0x3000 False 0 (lib world0) = ((True, [], 4), [])"
    by (simp add: demo_def world0_def)
  have s: "0 \<le> sint (4 :: cmsUInt32Number)"
    by simp
  have f: "SaveProfileToMem demo 0x3000 True 4 [] = ((False, [1, 2], 4), [])"
    by (simp add: demo_def)
  have "length (heap world0) = 4"
    by (simp add: world0_def)
  with q s f SaveProfileToMem_fill_failure_reaches_delete [OF q s f] show ?thesis
    by simp
qed

section \<open>Closing a profile\<close>

text \<open>
  Claim C2. For every handle, the close operation calls the library once and returns
  true, whatever the library answered: the library's answer reaches the record of the
  call and nothing else.
\<close>

theorem CloseProfile_always_reports_true:
  "Java_com_gmail_etordera_jcms_JCMS_cmsCloseProfile L hprofile w =
     (True, w\<lparr>lib := snd (CloseProfile L hprofile (lib w)),
              trace := trace w @ [CCloseProfile hprofile (fst (CloseProfile L hprofile (lib w)))]\<rparr>)"
  by (simp add: Java_com_gmail_etordera_jcms_JCMS_cmsCloseProfile_def cmsCloseProfile_def
      split: prod.splits)

section \<open>Reading the description of a profile\<close>

text \<open>
  Claim C5, as the code has it. For every profile handle the first call the operation
  makes asks the library for the description tag with the language code \<^verbatim>\<open>en\<close>, the
  country code \<^verbatim>\<open>EN\<close> and a 512-byte buffer of the operation's own. When the library
  stored a NUL among the first 512 bytes, the operation returns a new string, which
  is what precedes that NUL and is at most 511 bytes long.
\<close>

theorem GetProfileInfoASCII_fixed_query_and_bound:
  assumes "GetProfileInfoASCII L hprofile cmsInfoDescription ''en'' ''EN'' 512 (lib w) = ((n, written), l)"
  shows "(case Java_com_gmail_etordera_jcms_JCMS_cmsGetProfileInfoASCII L hprofile w of
            (r, w') \<Rightarrow>
              take (Suc (length (trace w))) (trace w') =
                trace w @ [CGetProfileInfoASCII hprofile cmsInfoDescription ''en'' ''EN'' 512 512 n]
              \<and> (CHR 0x00 \<in> set (take 512 written) \<longrightarrow>
                   r = Ref (length (heap w))
                   \<and> heap w' = heap w @ [JString (takeWhile (\<lambda>c. c \<noteq> CHR 0x00) (take 512 written))]
                   \<and> length (takeWhile (\<lambda>c. c \<noteq> CHR 0x00) (take 512 written)) \<le> 511
                   \<and> trace w' = trace w @
                       [CGetProfileInfoASCII hprofile cmsInfoDescription ''en'' ''EN'' 512 512 n,
                        JNewStringUTF (takeWhile (\<lambda>c. c \<noteq> CHR 0x00) (take 512 written))
                          (Ref (length (heap w)))]))"
proof (cases "CHR 0x00 \<in> set (take 512 written)")
  case True
  from takeWhile_shorter [OF True]
  have "length (takeWhile (\<lambda>c. c \<noteq> CHR 0x00) (take 512 written)) \<le> 511"
    by simp
  moreover have "c_str (take 512 written) = takeWhile (\<lambda>c. c \<noteq> CHR 0x00) (take 512 written)"
    by (simp add: c_str_def)
  ultimately show ?thesis
    using assms True
    by (simp add: Java_com_gmail_etordera_jcms_JCMS_cmsGetProfileInfoASCII_def cmsGetProfileInfoASCII_def NewStringUTF_def
        poke_length local_array_length c_str_buffer)
next
  case False
  with assms show ?thesis
    by (simp add: Java_com_gmail_etordera_jcms_JCMS_cmsGetProfileInfoASCII_def cmsGetProfileInfoASCII_def NewStringUTF_def
        poke_length local_array_length)
qed

theorem GetProfileInfoASCII_fixed_query_and_bound_witness:
  "GetProfileInfoASCII demo 0x1000 cmsInfoDescription ''en'' ''EN'' 512 (lib world0) =
     ((5, ''gray'' @ [CHR 0x00]), [])
   \<and> CHR 0x00 \<in> set (take 512 (''gray'' @ [CHR 0x00]))
   \<and> (case Java_com_gmail_etordera_jcms_JCMS_cmsGetProfileInfoASCII demo 0x1000 world0 of
         (r, w') \<Rightarrow>
           r = Ref 4 \<and> heap w' = heap world0 @ [JString ''gray'']
           \<and> trace w' =
               [CGetProfileInfoASCII 0x1000 cmsInfoDescription ''en'' ''EN'' 512 512 5,
                JNewStringUTF ''gray'' (Ref 4)])"
proof -
  have q: "GetProfileInfoASCII demo 0x1000 cmsInfoDescription ''en'' ''EN'' 512 (lib world0) =
      ((5, ''gray'' @ [CHR 0x00]), [])"
    by (simp add: demo_def world0_def)
  have t: "CHR 0x00 \<in> set (take 512 (''gray'' @ [CHR 0x00]))"
    by simp
  have "length (heap world0) = 4" and "trace world0 = []"
    by (simp_all add: world0_def)
  with q t GetProfileInfoASCII_fixed_query_and_bound [OF q] show ?thesis
    by (simp split: prod.splits)
qed

text \<open>
  Claim C5 as stated fails: for a profile without a description the library stores
  nothing, the buffer still holds what the stack held, and the string returned is
  518 bytes long.
\<close>

theorem GetProfileInfoASCII_unwritten_buffer_counterexample:
  "fst (GetProfileInfoASCII demo 0x3000 cmsInfoDescription ''en'' ''EN'' 512 (lib world0)) = (0, [])
   \<and> returned (Inr (Java_com_gmail_etordera_jcms_JCMS_cmsGetProfileInfoASCII demo 0x3000 world0)) =
       Some (JString (replicate 518 (CHR ''A'')))
   \<and> 511 < length (replicate 518 (CHR ''A''))"
  by (simp add: Java_com_gmail_etordera_jcms_JCMS_cmsGetProfileInfoASCII_def cmsGetProfileInfoASCII_def NewStringUTF_def
      local_array_def poke_def c_str_def returned_def demo_def world0_def
      flip: replicate_add)

section \<open>Creating a gray profile\<close>

text \<open>
  Claim C6. For every gamma value the operation makes exactly three calls: it builds
  a tone curve of type 0 from that gamma, creates a gray profile from the D50 white
  point and that curve, and frees that curve. It returns the profile handle the
  library answered; the curve is not returned.
\<close>

theorem CreateGrayProfile_builds_uses_frees_curve:
  assumes "BuildGamma L 0 gamma (lib w) = (c, l1)"
    and "CreateGrayProfile L (D50_xyY L) c l1 = (h, l2)"
  shows "Java_com_gmail_etordera_jcms_JCMS_cmsCreateGrayProfile L gamma w =
           (h, w\<lparr>lib := FreeToneCurve L c l2,
                 trace := trace w @
                   [CBuildGamma 0 gamma c, CCreateGrayProfile (D50_xyY L) c h, CFreeToneCurve c]\<rparr>)"
  using assms
  by (simp add: Java_com_gmail_etordera_jcms_JCMS_cmsCreateGrayProfile_def cmsBuildGamma_def
      cmsCreateGrayProfile_def cmsFreeToneCurve_def cmsD50_xyY_def)

theorem CreateGrayProfile_builds_uses_frees_curve_witness:
  "BuildGamma demo 0 0x400199999999999A (lib world0) = (0x5000, [0x5000])
   \<and> CreateGrayProfile demo (D50_xyY demo) 0x5000 [0x5000] = (0x1000, [0x5000])
   \<and> Java_com_gmail_etordera_jcms_JCMS_cmsCreateGrayProfile demo 0x400199999999999A world0 =
       (0x1000, world0\<lparr>lib := [],
                  trace := trace world0 @
                    [CBuildGamma 0 0x400199999999999A 0x5000, CCreateGrayProfile 0xD50 0x5000 0x1000,
                     CFreeToneCurve 0x5000]\<rparr>)"
proof -
  have b: "BuildGamma demo 0 0x400199999999999A (lib world0) = (0x5000, [0x5000])"
    by (simp add: demo_def world0_def)
  have g: "CreateGrayProfile demo (D50_xyY demo) 0x5000 [0x5000] = (0x1000, [0x5000])"
    by (simp add: demo_def)
  have "FreeToneCurve demo 0x5000 [0x5000] = []" and "D50_xyY demo = 0xD50"
    by (simp_all add: demo_def)
  with b g CreateGrayProfile_builds_uses_frees_curve [OF b g] show ?thesis
    by simp
qed

section \<open>Constructing profiles and transforms\<close>

text \<open>
  Claim C7. Open-from-file, open-from-memory and create-transform return exactly the
  handle the library answered, so zero exactly when the library answered zero; no
  Java exception is pending afterwards that was not pending before; and
  create-transform hands its two pixel formats, its intent and its flags to the
  library as they are. The strings and the byte array are live Java objects.
\<close>

theorem construction_returns_library_handle:
  assumes "string_at w filename fn" and "string_at w mode md" and "bytes_at w dataBuffer bs"
  shows "(case Java_com_gmail_etordera_jcms_JCMS_cmsOpenProfileFromFile L filename mode w of
            Inr (h, w') \<Rightarrow> h = fst (OpenProfileFromFile L fn md (lib w)) \<and> pending w' = pending w
          | Inl s \<Rightarrow> False)
       \<and> (case Java_com_gmail_etordera_jcms_JCMS_cmsOpenProfileFromMem L dataBuffer w of
            Inr (h, w') \<Rightarrow>
              h = fst (OpenProfileFromMem L bs (of_nat (length bs)) (lib w)) \<and> pending w' = pending w
          | Inl s \<Rightarrow> False)
       \<and> (case Java_com_gmail_etordera_jcms_JCMS_cmsCreateTransform L hInputProfile inputType
                 hOutputProfile outputType intent flags w of
            (h, w') \<Rightarrow>
              h = fst (CreateTransform L hInputProfile inputType hOutputProfile outputType intent flags (lib w))
              \<and> pending w' = pending w
              \<and> trace w' = trace w @
                  [CCreateTransform hInputProfile inputType hOutputProfile outputType intent flags h])"
  using assms
  by (simp add: Java_com_gmail_etordera_jcms_JCMS_cmsOpenProfileFromFile_def
      Java_com_gmail_etordera_jcms_JCMS_cmsOpenProfileFromMem_def
      Java_com_gmail_etordera_jcms_JCMS_cmsCreateTransform_def
      cmsOpenProfileFromFile_def cmsOpenProfileFromMem_def cmsCreateTransform_def
      string_at_def bytes_at_def jni_defs nth_append split: jref.splits prod.splits)

theorem construction_returns_library_handle_witness:
  "string_at world0 (Ref 0) ''gray.icc'' \<and> string_at world0 (Ref 1) ''r''
   \<and> bytes_at world0 (Ref 2) [1, 2, 3]
   \<and> (case Java_com_gmail_etordera_jcms_JCMS_cmsOpenProfileFromFile demo (Ref 0) (Ref 1) world0 of
         Inr (h, w') \<Rightarrow> h = 0x1000 \<and> \<not> pending w' | Inl s \<Rightarrow> False)
   \<and> (case Java_com_gmail_etordera_jcms_JCMS_cmsOpenProfileFromMem demo (Ref 2) world0 of
         Inr (h, w') \<Rightarrow> h = 0x2000 \<and> \<not> pending w' | Inl s \<Rightarrow> False)
   \<and> (case Java_com_gmail_etordera_jcms_JCMS_cmsCreateTransform demo 0x1000 7 0 7 1 0 world0 of
         (h, w') \<Rightarrow> h = 0 \<and> \<not> pending w' \<and> trace w' = [CCreateTransform 0x1000 7 0 7 1 0 0])"
proof -
  have f: "string_at world0 (Ref 0) ''gray.icc''" and m: "string_at world0 (Ref 1) ''r''"
    by (simp_all add: string_at_def world0_def)
  have d: "bytes_at world0 (Ref 2) [1, 2, 3]"
    by (simp add: bytes_at_def world0_def)
  have "fst (OpenProfileFromFile demo ''gray.icc'' ''r'' (lib world0)) = 0x1000"
    and "fst (OpenProfileFromMem demo [1, 2, 3] (of_nat (length [1, 2, 3 :: jbyte])) (lib world0)) = 0x2000"
    and "fst (CreateTransform demo 0x1000 7 0 7 1 0 (lib world0)) = 0"
    and "\<not> pending world0" and "trace world0 = []"
    by (simp_all add: demo_def world0_def)
  with f m d
    construction_returns_library_handle [OF f m d, where L = demo and hInputProfile = "0x1000"
      and inputType = 7 and hOutputProfile = 0 and outputType = 7 and intent = 1 and flags = 0]
  show ?thesis
    by (simp split: sum.splits prod.splits)
qed

text \<open>
  Claim C9. For every byte array passed to open-from-memory, the library receives the
  elements of the whole array together with the length the virtual machine reports
  for that array, and this length, read as \<^verbatim>\<open>cmsUInt32Number\<close>, is the number of elements.
\<close>

theorem OpenProfileFromMem_passes_whole_buffer:
  assumes "bytes_at w (Ref k) bs"
  shows "(case Java_com_gmail_etordera_jcms_JCMS_cmsOpenProfileFromMem L (Ref k) w of
            Inr (h, w') \<Rightarrow>
              trace w' = trace w @
                [JGetByteArrayElements k (length (views w)),
                 JGetArrayLength k (of_nat (length bs)),
                 COpenProfileFromMem bs (of_nat (length bs)) h,
                 JReleaseByteArrayElements k (length (views w)) 0]
              \<and> unat (of_nat (length bs) :: cmsUInt32Number) = length bs
          | Inl s \<Rightarrow> False)"
  using assms
  by (simp add: Java_com_gmail_etordera_jcms_JCMS_cmsOpenProfileFromMem_def
      cmsOpenProfileFromMem_def bytes_at_def jni_defs nth_append unat_jsize split: prod.splits)

theorem OpenProfileFromMem_passes_whole_buffer_witness:
  "bytes_at world0 (Ref 2) [1, 2, 3]
   \<and> (case Java_com_gmail_etordera_jcms_JCMS_cmsOpenProfileFromMem demo (Ref 2) world0 of
         Inr (h, w') \<Rightarrow>
           trace w' = [JGetByteArrayElements 2 0, JGetArrayLength 2 3, COpenProfileFromMem [1, 2, 3] 3 h,
                       JReleaseByteArrayElements 2 0 0]
       | Inl s \<Rightarrow> False)"
proof -
  have d: "bytes_at world0 (Ref 2) [1, 2, 3]"
    by (simp add: bytes_at_def world0_def)
  have "trace world0 = []" and "views world0 = []"
    by (simp_all add: world0_def)
  with d OpenProfileFromMem_passes_whole_buffer [OF d, of demo] show ?thesis
    by (simp split: sum.splits prod.splits)
qed

section \<open>Releasing what was acquired\<close>

text \<open>
  A view that is released leaves the table of outstanding views as it was.
\<close>

lemma views_released:
  assumes "views w' = views w @ replicate k None"
  shows "outstanding w' = outstanding w"
proof -
  let ?V = "views w"
  let ?P = "\<lambda>p. (views w @ replicate k None) ! p \<noteq> None"
  have parts: "[0 ..< length ?V + k] = [0 ..< length ?V] @ [length ?V ..< length ?V + k]"
    by (rule upt_add_eq_append) simp
  have fresh: "filter ?P [length ?V ..< length ?V + k] = []"
    by (auto simp: filter_empty_conv nth_append)
  have old: "filter ?P [0 ..< length ?V] = filter (\<lambda>p. ?V ! p \<noteq> None) [0 ..< length ?V]"
    by (rule filter_cong) (auto simp: nth_append)
  have "outstanding w' = filter ?P [0 ..< length ?V + k]"
    by (simp add: outstanding_def assms)
  also have "\<dots> = filter ?P [0 ..< length ?V] @ filter ?P [length ?V ..< length ?V + k]"
    by (simp only: parts filter_append)
  also have "\<dots> = outstanding w"
    by (simp only: fresh old outstanding_def append_Nil2)
  finally show ?thesis .
qed

text \<open>
  Open-from-file, open-from-memory and apply-transform have one exit: each view they
  acquire is released once, by the matching release call, in the order of acquisition.
\<close>

lemma OpenProfileFromFile_releases_views:
  assumes "string_at w (Ref a) fn" and "string_at w (Ref b) md"
  shows "(case Java_com_gmail_etordera_jcms_JCMS_cmsOpenProfileFromFile L (Ref a) (Ref b) w of
            Inr (h, w') \<Rightarrow>
              views w' = views w @ [None, None]
              \<and> trace w' = trace w @
                  [JGetStringUTFChars a (length (views w)),
                   JGetStringUTFChars b (Suc (length (views w))),
                   COpenProfileFromFile fn md h,
                   JReleaseStringUTFChars a (length (views w)),
                   JReleaseStringUTFChars b (Suc (length (views w)))]
          | Inl s \<Rightarrow> False)"
  using assms
  by (simp add: Java_com_gmail_etordera_jcms_JCMS_cmsOpenProfileFromFile_def
      cmsOpenProfileFromFile_def string_at_def jni_defs
      nth_append list_update_append split: prod.splits)

lemma OpenProfileFromMem_releases_view:
  assumes "bytes_at w (Ref k) bs"
  shows "(case Java_com_gmail_etordera_jcms_JCMS_cmsOpenProfileFromMem L (Ref k) w of
            Inr (h, w') \<Rightarrow> views w' = views w @ [None] \<and> heap w' = heap w
          | Inl s \<Rightarrow> False)"
  using assms
  by (simp add: Java_com_gmail_etordera_jcms_JCMS_cmsOpenProfileFromMem_def
      cmsOpenProfileFromMem_def bytes_at_def jni_defs
      nth_append list_update_same_conv split: prod.splits)

lemma DoTransform_releases_views:
  assumes "bytes_at w (Ref a) inp" and "bytes_at w (Ref b) out"
  shows "(case Java_com_gmail_etordera_jcms_JCMS_cmsDoTransform L hTransform (Ref a) (Ref b) size' w of
            Inr w' \<Rightarrow>
              views w' = views w @ [None, None]
              \<and> trace w' = trace w @
                  [JGetByteArrayElements a (length (views w)),
                   JGetByteArrayElements b (Suc (length (views w))),
                   CDoTransform hTransform (length (views w)) (Suc (length (views w))) size',
                   JReleaseByteArrayElements a (length (views w)) 0,
                   JReleaseByteArrayElements b (Suc (length (views w))) 0]
          | Inl s \<Rightarrow> False)"
  using assms
  by (simp add: Java_com_gmail_etordera_jcms_JCMS_cmsDoTransform_def
      cmsDoTransform_def bytes_at_def jni_defs
      nth_append list_update_append split: prod.splits)

text \<open>So nothing these three operations acquire is outstanding when they return.\<close>

lemma pair_released: "views w' = views w @ [None, None] \<Longrightarrow> outstanding w' = outstanding w"
  using views_released [of w' w 2] by (simp add: replicate_numeral)

lemma single_released: "views w' = views w @ [None] \<Longrightarrow> outstanding w' = outstanding w"
  using views_released [of w' w 1] by simp

lemma DoTransform_nothing_outstanding:
  assumes "bytes_at w (Ref a) inp" and "bytes_at w (Ref b) out"
  shows "(case Java_com_gmail_etordera_jcms_JCMS_cmsDoTransform L hTransform (Ref a) (Ref b) size' w of
            Inr w' \<Rightarrow> outstanding w' = outstanding w
          | Inl s \<Rightarrow> False)"
  using DoTransform_releases_views [OF assms, where L = L and hTransform = hTransform and size' = size']
  by (auto split: sum.splits intro: pair_released)

lemma OpenProfileFromFile_nothing_outstanding:
  assumes "string_at w (Ref a) fn" and "string_at w (Ref b) md"
  shows "(case Java_com_gmail_etordera_jcms_JCMS_cmsOpenProfileFromFile L (Ref a) (Ref b) w of
            Inr (h, w') \<Rightarrow> outstanding w' = outstanding w
          | Inl s \<Rightarrow> False)"
  using OpenProfileFromFile_releases_views [OF assms, where L = L]
  by (auto split: sum.splits intro: pair_released)

lemma OpenProfileFromMem_nothing_outstanding:
  assumes "bytes_at w (Ref k) bs"
  shows "(case Java_com_gmail_etordera_jcms_JCMS_cmsOpenProfileFromMem L (Ref k) w of
            Inr (h, w') \<Rightarrow> outstanding w' = outstanding w
          | Inl s \<Rightarrow> False)"
  using OpenProfileFromMem_releases_view [OF assms, where L = L]
  by (auto split: sum.splits intro: single_released)

text \<open>
  Claim C3. Every view acquired is released exactly once on every exit path. This
  holds on the single exit of open-from-file, open-from-memory and apply-transform,
  and on the first and the last exit of save-to-memory. On the second exit of
  save-to-memory, after a failed fill, it does not: the run stops at the
  \<^verbatim>\<open>delete\<close> of the array reference, which the source places before the release, and
  the elements acquired from the array are still outstanding.
\<close>

theorem SaveProfileToMem_fill_failure_leaves_view_outstanding:
  assumes "SaveProfileToMem L hprofile False 0 (lib w) = ((True, written1, n), l1)"
    and "0 \<le> sint n"
    and "SaveProfileToMem L hprofile True n l1 = ((False, written2, n2), l2)"
  shows "(case Java_com_gmail_etordera_jcms_JCMS_cmsSaveProfileToMem L hprofile w of
            Inl (e, w') \<Rightarrow>
              e = DeleteNotFromNew (Ref (length (heap w)))
              \<and> views w' = views w @
                  [Some (Elements (length (heap w)) (poke (replicate (unat n) 0) written2))]
              \<and> trace w' = trace w @
                  [CSaveProfileToMem hprofile None 0 True n,
                   JNewByteArray n (Ref (length (heap w))),
                   JGetByteArrayElements (length (heap w)) (length (views w)),
                   CSaveProfileToMem hprofile (Some (length (views w))) n False n2]
          | Inr (r, w') \<Rightarrow> False)"
  using assms
  by (simp add: Java_com_gmail_etordera_jcms_JCMS_cmsSaveProfileToMem_def
      cmsSaveProfileToMem_def jni_defs nth_append sint_nonneg_unat)

theorem SaveProfileToMem_fill_failure_leaves_view_outstanding_witness:
  "SaveProfileToMem demo 0x3000 False 0 (lib world0) = ((True, [], 4), [])
   \<and> 0 \<le> sint (4 :: cmsUInt32Number)
   \<and> SaveProfileToMem demo 0x3000 True 4 [] = ((False, [1, 2], 4), [])
   \<and> (case Java_com_gmail_etordera_jcms_JCMS_cmsSaveProfileToMem demo 0x3000 world0 of
         Inl (e, w') \<Rightarrow> e = DeleteNotFromNew (Ref 4) \<and> outstanding w' = [0]
       | Inr (r, w') \<Rightarrow> False)"
proof -
  have q: "SaveProfileToMem demo 0x3000 False 0 (lib world0) = ((True, [], 4), [])"
    by (simp add: demo_def world0_def)
  have s: "0 \<le> sint (4 :: cmsUInt32Number)"
    by simp
  have f: "SaveProfileToMem demo 0x3000 True 4 [] = ((False, [1, 2], 4), [])"
    by (simp add: demo_def)
  have "length (heap world0) = 4" and "views world0 = []"
    by (simp_all add: world0_def)
  with q s f SaveProfileToMem_fill_failure_leaves_view_outstanding [OF q s f] show ?thesis
    by (simp add: outstanding_def split: sum.splits prod.splits)
qed

section \<open>No state of the binding's own\<close>












end
